theory Spec2Isabelle
  imports Complex_Main "HOL-Library.Word" "HOL-Library.Log_Nat"
begin

section \<open>Conventions of the embedding\<close>

text \<open>
  The development embeds two scripts of the repository:
  \<^verbatim>\<open>scripts/test_sam_decoder.py\<close> (prompt tensors, decoder call, mask
  post-processing) and \<^verbatim>\<open>scripts/generate_sam_embeddings.py\<close> (the
  embedding loop with its metadata sidecar).

  Python integers are \<open>int\<close>. Python floats are binary64 values and the elements
  of a float32 array are binary32 values: every arithmetic operation and every store
  rounds, and the rounding is part of the model. Every exception the scripts can raise
  is a value of \<open>error\<close>; a function that can raise returns \<open>error + 'a\<close>.
\<close>

datatype error =
    ZeroDivisionError
  | OverflowError
  | ValueError
  | IndexError
  | OSError
  | ImportError
  | RuntimeError string
  | EngineError string
  | SystemExit string

section \<open>Floating-point values\<close>

text \<open>
  A float is a finite rational, an infinity or not-a-number. The two zeros of IEEE
  arithmetic are one value: the scripts only multiply, compare and store, which do not
  tell them apart. The type is named after the values the decoder returns.
\<close>

datatype logit = Finite rat | PosInf | NegInf | NaN

text \<open>
  Rounding to the nearest value with a \<open>p\<close>-bit significand, ties to the even
  significand, with the exponent of the last place not below \<open>emin\<close>;
  \<open>ilog2 q\<close> is the integer part of the binary logarithm of a positive \<open>q\<close>.
\<close>

fun pow2_nat :: "nat \<Rightarrow> rat" where
  "pow2_nat n =
     (if n = 0 then 1
      else if even n then (let h = pow2_nat (n div 2) in h * h)
      else 2 * pow2_nat (n - 1))"

definition pow2 :: "int \<Rightarrow> rat" where
  "pow2 e = (if 0 \<le> e then pow2_nat (nat e) else 1 / pow2_nat (nat (- e)))"

definition ilog2 :: "rat \<Rightarrow> int" where
  "ilog2 q =
     (case quotient_of q of
        (a, b) \<Rightarrow> (let d = bitlen a - bitlen b in if pow2 d \<le> q then d else d - 1))"

definition round_half_even :: "rat \<Rightarrow> int" where
  "round_half_even r =
     (let f = \<lfloor>r\<rfloor>; d = r - of_int f
      in if d < 1 / 2 then f else if 1 / 2 < d then f + 1 else if even f then f else f + 1)"

definition round_to :: "nat \<Rightarrow> int \<Rightarrow> rat \<Rightarrow> rat" where
  "round_to p emin q =
     (if q = 0 then 0
      else (let u = max (ilog2 \<bar>q\<bar> - int p + 1) emin
            in of_int (round_half_even (q / pow2 u)) * pow2 u))"

text \<open>
  A rounded value of magnitude \<open>2 ^ emax\<close> or more, that is with a binary logarithm of
  \<open>emax\<close> or more, is an infinity.
\<close>

definition to_float :: "nat \<Rightarrow> int \<Rightarrow> int \<Rightarrow> rat \<Rightarrow> logit" where
  "to_float p emin emax q =
     (let v = round_to p emin q
      in if v = 0 then Finite 0
         else if emax \<le> ilog2 \<bar>v\<bar> then (if 0 < v then PosInf else NegInf)
         else Finite v)"

text \<open>binary64 (Python's \<^verbatim>\<open>float\<close>) and binary32 (\<^verbatim>\<open>np.float32\<close>).\<close>

definition to_f64 :: "rat \<Rightarrow> logit" where
  "to_f64 = to_float 53 (- 1074) 1024"

definition to_f32 :: "rat \<Rightarrow> logit" where
  "to_f32 = to_float 24 (- 149) 128"

text \<open>
  \<^verbatim>\<open>float(n)\<close> and the conversion of an integer operand of a float operation:
  OverflowError when the integer rounds beyond the largest float.
\<close>

definition int_to_float :: "int \<Rightarrow> error + logit" where
  "int_to_float n =
     (case to_f64 (rat_of_int n) of
        Finite v \<Rightarrow> Inr (Finite v)
      | _ \<Rightarrow> Inl OverflowError)"

text \<open>\<^verbatim>\<open>a / b\<close> on two integers: the exact quotient, rounded once.\<close>

definition int_true_div :: "int \<Rightarrow> int \<Rightarrow> error + logit" where
  "int_true_div a b =
     (if b = 0 then Inl ZeroDivisionError
      else (case to_f64 (rat_of_int a / rat_of_int b) of
              Finite v \<Rightarrow> Inr (Finite v)
            | _ \<Rightarrow> Inl OverflowError))"

text \<open>\<^verbatim>\<open>a / b\<close> on two floats: ZeroDivisionError on a zero divisor.\<close>

fun float_div :: "logit \<Rightarrow> logit \<Rightarrow> error + logit" where
  "float_div a (Finite b) =
     (if b = 0 then Inl ZeroDivisionError
      else (case a of
              Finite x \<Rightarrow> Inr (to_f64 (x / b))
            | PosInf \<Rightarrow> Inr (if 0 < b then PosInf else NegInf)
            | NegInf \<Rightarrow> Inr (if 0 < b then NegInf else PosInf)
            | NaN \<Rightarrow> Inr NaN))"
| "float_div (Finite x) PosInf = Inr (Finite 0)"
| "float_div (Finite x) NegInf = Inr (Finite 0)"
| "float_div a b = Inr NaN"

text \<open>\<^verbatim>\<open>a * b\<close> on two floats: never an exception; an overflow is an infinity.\<close>

fun float_mul :: "logit \<Rightarrow> logit \<Rightarrow> logit" where
  "float_mul (Finite a) (Finite b) = to_f64 (a * b)"
| "float_mul NaN b = NaN"
| "float_mul a NaN = NaN"
| "float_mul (Finite a) PosInf = (if a = 0 then NaN else if 0 < a then PosInf else NegInf)"
| "float_mul (Finite a) NegInf = (if a = 0 then NaN else if 0 < a then NegInf else PosInf)"
| "float_mul PosInf (Finite b) = (if b = 0 then NaN else if 0 < b then PosInf else NegInf)"
| "float_mul NegInf (Finite b) = (if b = 0 then NaN else if 0 < b then NegInf else PosInf)"
| "float_mul PosInf PosInf = PosInf"
| "float_mul PosInf NegInf = NegInf"
| "float_mul NegInf PosInf = NegInf"
| "float_mul NegInf NegInf = PosInf"

text \<open>Storing a Python float in a float32 array.\<close>

fun store_f32 :: "logit \<Rightarrow> logit" where
  "store_f32 (Finite q) = to_f32 q"
| "store_f32 v = v"

section \<open>Prompt tensors (\<^verbatim>\<open>test_sam_decoder.py\<close>, \<^verbatim>\<open>parse_click\<close> and lines 51-64)\<close>

type_synonym click = "logit \<times> logit \<times> int"

subsection \<open>\<^verbatim>\<open>parse_click\<close>\<close>

text \<open>
  \<^verbatim>\<open>s.split(":", 1)\<close> cuts at the first colon; \<^verbatim>\<open>xy.split(",")\<close> cuts
  at every comma, and unpacking its result into two names raises ValueError unless there
  are exactly two pieces. Python's own \<^verbatim>\<open>float\<close> and \<^verbatim>\<open>int\<close> parsers
  are parameters: \<open>None\<close> is their ValueError.
\<close>

fun split_all :: "char \<Rightarrow> string \<Rightarrow> string list" where
  "split_all c [] = [[]]"
| "split_all c (x # xs) =
     (if x = c then [] # split_all c xs
      else (case split_all c xs of
              [] \<Rightarrow> [[x]]
            | p # ps \<Rightarrow> (x # p) # ps))"

definition split_first :: "char \<Rightarrow> string \<Rightarrow> string \<times> string" where
  "split_first c s = (takeWhile (\<lambda>x. x \<noteq> c) s, tl (dropWhile (\<lambda>x. x \<noteq> c) s))"

definition parse_click ::
  "(string \<Rightarrow> logit option) \<Rightarrow> (string \<Rightarrow> int option) \<Rightarrow> string \<Rightarrow> error + click" where
  "parse_click float_of int_of s =
     (case (if CHR '':'' \<in> set s
            then (case split_first CHR '':'' s of
                    (xy, lbl) \<Rightarrow>
                      (case int_of lbl of
                         None \<Rightarrow> Inl ValueError
                       | Some label \<Rightarrow> Inr (xy, label)))
            else Inr (s, 1)) of
        Inl e \<Rightarrow> Inl e
      | Inr (xy, label) \<Rightarrow>
          (case split_all CHR '','' xy of
             [x_str, y_str] \<Rightarrow>
               (case float_of x_str of
                  None \<Rightarrow> Inl ValueError
                | Some x \<Rightarrow>
                    (case float_of y_str of
                       None \<Rightarrow> Inl ValueError
                     | Some y \<Rightarrow> Inr (x, y, label)))
           | _ \<Rightarrow> Inl ValueError))"

fun parse_clicks ::
  "(string \<Rightarrow> logit option) \<Rightarrow> (string \<Rightarrow> int option) \<Rightarrow> string list \<Rightarrow> error + click list" where
  "parse_clicks float_of int_of [] = Inr []"
| "parse_clicks float_of int_of (c # cs) =
     (case parse_click float_of int_of c of
        Inl e \<Rightarrow> Inl e
      | Inr k \<Rightarrow>
          (case parse_clicks float_of int_of cs of
             Inl e \<Rightarrow> Inl e
           | Inr ks \<Rightarrow> Inr (k # ks)))"

subsection \<open>Scale factor and default click\<close>

text \<open>
  \<^verbatim>\<open>sam_scale = 1024.0 / max(args.image_width, args.image_height)\<close>: the larger
  dimension is converted to a float (OverflowError when it is too large) and divides
  1024.0 (ZeroDivisionError when it is 0). Nothing else about the dimensions is checked.
\<close>

definition sam_scale :: "int \<Rightarrow> int \<Rightarrow> error + logit" where
  "sam_scale image_width image_height =
     (case int_to_float (max image_width image_height) of
        Inl e \<Rightarrow> Inl e
      | Inr m \<Rightarrow> float_div (Finite 1024) m)"

text \<open>
  \<^verbatim>\<open>if not clicks: clicks = [(w/2, h/2, 1)]\<close>: two true divisions of integers, each
  of which can raise OverflowError.
\<close>

definition default_clicks :: "click list \<Rightarrow> int \<Rightarrow> int \<Rightarrow> error + click list" where
  "default_clicks clicks image_width image_height =
     (if clicks = []
      then (case int_true_div image_width 2 of
              Inl e \<Rightarrow> Inl e
            | Inr cx \<Rightarrow>
                (case int_true_div image_height 2 of
                   Inl e \<Rightarrow> Inl e
                 | Inr cy \<Rightarrow> Inr [(cx, cy, 1)]))
      else Inr clicks)"

subsection \<open>The two arrays\<close>

text \<open>
  Arrays are nested lists. \<open>set2 a i j v\<close> is \<^verbatim>\<open>a[i, j] = v\<close> and
  \<open>set3 a i j k v\<close> is \<^verbatim>\<open>a[i, j, k] = v\<close>. The script only writes at
  \<^verbatim>\<open>[0, i, _]\<close> with \<open>i \<le> len(clicks)\<close> into arrays of
  \<open>len(clicks) + 1\<close> rows, so numpy's IndexError cannot arise and the updates are
  plain list updates.
\<close>

definition set2 :: "'a list list \<Rightarrow> nat \<Rightarrow> nat \<Rightarrow> 'a \<Rightarrow> 'a list list" where
  "set2 a i j v = a[i := (a ! i)[j := v]]"

definition set3 :: "'a list list list \<Rightarrow> nat \<Rightarrow> nat \<Rightarrow> nat \<Rightarrow> 'a \<Rightarrow> 'a list list list" where
  "set3 a i j k v = a[i := set2 (a ! i) j k v]"

text \<open>
  The loop \<^verbatim>\<open>for i, (x, y, lbl) in enumerate(clicks)\<close>, from index \<open>i\<close> on. The two
  products are binary64 products stored as float32; \<^verbatim>\<open>float(lbl)\<close> raises
  OverflowError on a label beyond the float range, after the two coordinates of that
  click have been stored.
\<close>

fun fill_points ::
  "logit \<Rightarrow> nat \<Rightarrow> click list \<Rightarrow> logit list list list \<times> logit list list
     \<Rightarrow> error + (logit list list list \<times> logit list list)" where
  "fill_points s i [] (point_coords, point_labels) = Inr (point_coords, point_labels)"
| "fill_points s i ((x, y, lbl) # clicks) (point_coords, point_labels) =
     (let pc1 = set3 point_coords 0 i 0 (store_f32 (float_mul x s));
          pc2 = set3 pc1 0 i 1 (store_f32 (float_mul y s))
      in (case int_to_float lbl of
            Inl e \<Rightarrow> Inl e
          | Inr l \<Rightarrow> fill_points s (Suc i) clicks (pc2, set2 point_labels 0 i (store_f32 l))))"

text \<open>Lines 51-64 on already parsed clicks.\<close>

definition point_tensors ::
  "click list \<Rightarrow> int \<Rightarrow> int \<Rightarrow> error + (logit list list list \<times> logit list list)" where
  "point_tensors clicks0 image_width image_height =
     (case sam_scale image_width image_height of
        Inl e \<Rightarrow> Inl e
      | Inr s \<Rightarrow>
          (case default_clicks clicks0 image_width image_height of
             Inl e \<Rightarrow> Inl e
           | Inr clicks \<Rightarrow>
               (let n = length clicks;
                    point_coords = [replicate (n + 1) [Finite 0, Finite 0]];
                    point_labels = [replicate (n + 1) (Finite 0)]
                in (case fill_points s 0 clicks (point_coords, point_labels) of
                      Inl e \<Rightarrow> Inl e
                    | Inr (pc, pl) \<Rightarrow> Inr (pc, set2 pl 0 n (store_f32 (Finite (- 1))))))))"

text \<open>
  Lines 51-64 on the command line's \<^verbatim>\<open>--click\<close> strings: the scale is
  computed before the clicks are parsed.
\<close>

definition prompt_tensors ::
  "(string \<Rightarrow> logit option) \<Rightarrow> (string \<Rightarrow> int option) \<Rightarrow> string list \<Rightarrow> int \<Rightarrow> int
     \<Rightarrow> error + (logit list list list \<times> logit list list)" where
  "prompt_tensors float_of int_of click_args image_width image_height =
     (case sam_scale image_width image_height of
        Inl e \<Rightarrow> Inl e
      | Inr s \<Rightarrow>
          (case parse_clicks float_of int_of click_args of
             Inl e \<Rightarrow> Inl e
           | Inr clicks \<Rightarrow> point_tensors clicks image_width image_height))"

section \<open>Loading the embedding (\<^verbatim>\<open>test_sam_decoder.py\<close>, line 49)\<close>

text \<open>
  \<^verbatim>\<open>emb = np.load(args.embedding).astype(np.float32)\<close>. An array is its shape,
  its element type and its elements in row-major order. \<^verbatim>\<open>np.load\<close> raises
  OSError for a missing file and ValueError for a file that is not an array file;
  \<^verbatim>\<open>astype\<close> converts every element (the rounding to float32 is the parameter
  \<open>round32\<close>) and keeps the shape. The script compares the shape with nothing.
\<close>

datatype np_dtype = Float16 | Float32 | Float64 | Int64 | UInt8

record ndarray =
  shape :: "nat list"
  dtype :: np_dtype
  data :: "rat list"

datatype disk_file = NpyFile ndarray | OtherFile

definition np_load :: "(string \<rightharpoonup> disk_file) \<Rightarrow> string \<Rightarrow> error + ndarray" where
  "np_load fs path =
     (case fs path of
        None \<Rightarrow> Inl OSError
      | Some OtherFile \<Rightarrow> Inl ValueError
      | Some (NpyFile a) \<Rightarrow> Inr a)"

definition astype_float32 :: "(rat \<Rightarrow> rat) \<Rightarrow> ndarray \<Rightarrow> ndarray" where
  "astype_float32 round32 a = a\<lparr>dtype := Float32, data := map round32 (data a)\<rparr>"

definition load_emb :: "(rat \<Rightarrow> rat) \<Rightarrow> (string \<rightharpoonup> disk_file) \<Rightarrow> string \<Rightarrow> error + ndarray" where
  "load_emb round32 fs path =
     (case np_load fs path of
        Inl e \<Rightarrow> Inl e
      | Inr a \<Rightarrow> Inr (astype_float32 round32 a))"

section \<open>Calling the decoder (\<^verbatim>\<open>test_sam_decoder.py\<close>, lines 79-85)\<close>

text \<open>
  An inference session is the graph's output names, in graph order, and the engine run
  on a feed: an engine error, or one tensor per output name. \<^verbatim>\<open>sess.run(None, feeds)\<close>
  returns all outputs in graph order; \<^verbatim>\<open>sess.run(names, feeds)\<close> rejects a name that
  is not an output of the graph and otherwise returns the outputs of those names. The
  result of \<^verbatim>\<open>sess.run\<close> is always a list, so \<^verbatim>\<open>isinstance(out, list)\<close> holds.
\<close>

record ('f, 't) session =
  output_names :: "string list"
  run_graph :: "'f \<Rightarrow> error + 't list"

fun select_outputs :: "(string \<times> 't) list \<Rightarrow> string list \<Rightarrow> 't list option" where
  "select_outputs named [] = Some []"
| "select_outputs named (n # ns) =
     (case map_of named n of
        None \<Rightarrow> None
      | Some t \<Rightarrow>
          (case select_outputs named ns of
             None \<Rightarrow> None
           | Some ts \<Rightarrow> Some (t # ts)))"

definition sess_run :: "('f, 't) session \<Rightarrow> string list option \<Rightarrow> 'f \<Rightarrow> error + 't list" where
  "sess_run sess names feeds =
     (case names of
        None \<Rightarrow> run_graph sess feeds
      | Some ns \<Rightarrow>
          (if \<not> list_all (\<lambda>n. n \<in> set (output_names sess)) ns
           then Inl (EngineError ''Invalid Output Name'')
           else (case run_graph sess feeds of
                   Inl e \<Rightarrow> Inl e
                 | Inr outs \<Rightarrow>
                     (case select_outputs (zip (output_names sess) outs) ns of
                        None \<Rightarrow> Inl (EngineError ''Missing Output'')
                      | Some ts \<Rightarrow> Inr ts))))"

text \<open>
  Lines 79-85: all outputs are asked for first and the first of them is taken; only when
  that list is empty is the output named \<^verbatim>\<open>masks\<close> asked for.
\<close>

definition decoder_masks :: "('f, 't) session \<Rightarrow> 'f \<Rightarrow> error + 't" where
  "decoder_masks sess feeds =
     (case sess_run sess None feeds of
        Inl e \<Rightarrow> Inl e
      | Inr out \<Rightarrow>
          (if length out \<ge> 1 then Inr (out ! 0)
           else (case sess_run sess (Some [''masks'']) feeds of
                   Inl e \<Rightarrow> Inl e
                 | Inr r \<Rightarrow> (case r of [] \<Rightarrow> Inl IndexError | t # _ \<Rightarrow> Inr t))))"

section \<open>Mask post-processing (\<^verbatim>\<open>test_sam_decoder.py\<close>, lines 87-98)\<close>

text \<open>
  A logit is a float32 value. The comparison \<^verbatim>\<open>mask > 0.0\<close> is exact on floats
  and false for not-a-number.
\<close>

fun gt_zero :: "logit \<Rightarrow> bool" where
  "gt_zero (Finite r) = (0 < r)"
| "gt_zero PosInf = True"
| "gt_zero NegInf = False"
| "gt_zero NaN = False"

type_synonym u8 = "8 word"

text \<open>\<^verbatim>\<open>(mask > 0.0).astype(np.uint8) * 255\<close>, one element.\<close>

definition binary_pixel :: "logit \<Rightarrow> u8" where
  "binary_pixel v = (if gt_zero v then 1 else 0) * 255"

definition binary_of :: "logit list list \<Rightarrow> u8 list list" where
  "binary_of logits = map (map binary_pixel) logits"

text \<open>\<^verbatim>\<open>masks[0, 0]\<close> on a four-dimensional array: IndexError on an empty axis.\<close>

definition index00 :: "'a list list \<Rightarrow> error + 'a" where
  "index00 masks =
     (case masks of
        [] \<Rightarrow> Inl IndexError
      | b # _ \<Rightarrow> (case b of [] \<Rightarrow> Inl IndexError | m # _ \<Rightarrow> Inr m))"

text \<open>
  \<^verbatim>\<open>Image.fromarray(binary).resize((w, h), Image.NEAREST)\<close>. The image library is
  not part of the repository; the model is its nearest-neighbour rule in exact arithmetic:
  output pixel \<open>(X, Y)\<close> copies the input pixel whose column is the integer part of
  \<open>(X + 1/2) * xsize / w\<close> and whose row is the integer part of \<open>(Y + 1/2) * ysize / h\<close>;
  a position outside the input reads as 0, and a requested size below 1 is a ValueError.
\<close>

definition nearest_index :: "nat \<Rightarrow> nat \<Rightarrow> nat \<Rightarrow> nat" where
  "nearest_index n_in n_out i = ((2 * i + 1) * n_in) div (2 * n_out)"

definition getpixel :: "u8 list list \<Rightarrow> nat \<Rightarrow> nat \<Rightarrow> u8" where
  "getpixel img x y = (if y < length img \<and> x < length (img ! y) then img ! y ! x else 0)"

definition resize_nearest :: "u8 list list \<Rightarrow> int \<Rightarrow> int \<Rightarrow> error + u8 list list" where
  "resize_nearest img w h =
     (if w < 1 \<or> h < 1 then Inl ValueError
      else
        (let ysize = length img;
             xsize = (case img of [] \<Rightarrow> 0 | r # _ \<Rightarrow> length r)
         in Inr (map (\<lambda>Y. map (\<lambda>X. getpixel img (nearest_index xsize (nat w) X)
                                              (nearest_index ysize (nat h) Y))
                              [0..<nat w])
                     [0..<nat h])))"

text \<open>
  Lines 87-98 without the writing of the two PNG files: the thresholded mask and the
  resized one.
\<close>

definition postprocess ::
  "logit list list list list \<Rightarrow> int \<Rightarrow> int \<Rightarrow> error + (u8 list list \<times> u8 list list)" where
  "postprocess masks image_width image_height =
     (case index00 masks of
        Inl e \<Rightarrow> Inl e
      | Inr logits \<Rightarrow>
          (let binary = binary_of logits
           in (case resize_nearest binary image_width image_height of
                 Inl e \<Rightarrow> Inl e
               | Inr img_mask \<Rightarrow> Inr (binary, img_mask))))"

section \<open>Generating embeddings (\<^verbatim>\<open>generate_sam_embeddings.py\<close>)\<close>

text \<open>
  Everything outside the script is a field of \<open>world\<close>: the two attempts to import the
  model package, the construction of the predictor, the image reader (which returns
  nothing for an unreadable image instead of raising), the encoder, and the file
  operations. An operation that can raise returns its error; \<open>None\<close> in an
  \<open>error option\<close> is success.
\<close>

record cv_image =
  rows :: nat
  cols :: nat
  pixels :: "u8 list"

record world =
  import_sam :: "error option"
  clone_and_import :: "error option"
  build_predictor :: "string \<Rightarrow> string \<Rightarrow> error option"
  imread :: "string \<Rightarrow> cv_image option"
  get_image_embedding :: "cv_image \<Rightarrow> error + ndarray"
  np_save :: "string \<Rightarrow> error option"
  read_bytes :: "string \<Rightarrow> error + u8 list"
  sha256_hex :: "u8 list \<Rightarrow> string"
  write_json :: "string \<Rightarrow> error option"

record args =
  checkpoint :: string
  model_type :: string
  out :: string

record metadata =
  meta_image :: string
  meta_width :: nat
  meta_height :: nat
  meta_sha256 :: string
  meta_model_type :: string
  meta_checkpoint :: string

datatype out_file = Npy ndarray | Json metadata

datatype printed =
    SkipUnreadable string
  | MetadataFailed string error
  | Ok string string
  | Done nat string

record run_state =
  files :: "string \<rightharpoonup> out_file"
  count :: nat
  stdout :: "printed list"

text \<open>\<^verbatim>\<open>Path.name\<close> and \<^verbatim>\<open>Path.stem\<close> on slash-separated paths.\<close>

definition path_name :: "string \<Rightarrow> string" where
  "path_name p = rev (takeWhile (\<lambda>c. c \<noteq> CHR ''/'') (rev p))"

definition path_stem :: "string \<Rightarrow> string" where
  "path_stem p =
     (let name = path_name p;
          after_dot = length (takeWhile (\<lambda>c. c \<noteq> CHR ''.'') (rev name))
      in if CHR ''.'' \<in> set name \<and> 0 < length name - after_dot - 1 \<and> 0 < after_dot
         then take (length name - after_dot - 1) name
         else name)"

text \<open>
  \<^verbatim>\<open>load_sam\<close>: a failed import is caught and tried again from a local clone; a
  failure of that second attempt is replaced by SystemExit (the text of the original
  error, which the script appends to the message, is left out). An unknown model type is
  a SystemExit too.
\<close>

definition load_sam :: "world \<Rightarrow> string \<Rightarrow> string \<Rightarrow> error + unit" where
  "load_sam w model_type0 checkpoint0 =
     (case (case import_sam w of
              None \<Rightarrow> Inr ()
            | Some e \<Rightarrow>
                (case clone_and_import w of
                   None \<Rightarrow> Inr ()
                 | Some e' \<Rightarrow> Inl (SystemExit ''Failed to import segment_anything''))) of
        Inl e \<Rightarrow> Inl e
      | Inr u \<Rightarrow>
          (if model_type0 \<notin> {''vit_h'', ''vit_l'', ''vit_b''}
           then Inl (SystemExit ''--model-type must be one of: vit_h, vit_l, vit_b'')
           else (case build_predictor w model_type0 checkpoint0 of
                   Some e \<Rightarrow> Inl e
                 | None \<Rightarrow> Inr ())))"

text \<open>
  Lines 119-136: the sidecar, inside \<^verbatim>\<open>try\<close>. Writing the JSON file either
  succeeds or leaves no file: a file cut short by a failing write is not modelled.
\<close>

definition write_metadata ::
  "world \<Rightarrow> args \<Rightarrow> string \<Rightarrow> cv_image \<Rightarrow> run_state \<Rightarrow> error + run_state" where
  "write_metadata w a img_path img_rgb st =
     (case read_bytes w img_path of
        Inl e \<Rightarrow> Inl e
      | Inr img_bytes \<Rightarrow>
          (let meta = \<lparr>meta_image = path_name img_path,
                       meta_width = cols img_rgb,
                       meta_height = rows img_rgb,
                       meta_sha256 = sha256_hex w img_bytes,
                       meta_model_type = model_type a,
                       meta_checkpoint = path_name (checkpoint a)\<rparr>;
               json_path = out a @ ''/'' @ path_stem img_path @ ''.json''
           in (case write_json w json_path of
                 Some e \<Rightarrow> Inl e
               | None \<Rightarrow> Inr (st\<lparr>files := (files st)(json_path \<mapsto> Json meta)\<rparr>))))"

text \<open>
  Lines 105-138: the body of the loop for one image. \<open>Inl\<close> is an exception that leaves
  the loop and ends the run; \<open>Inr\<close> is the state with which the loop goes on.
\<close>

definition process_image :: "world \<Rightarrow> args \<Rightarrow> string \<Rightarrow> run_state \<Rightarrow> error + run_state" where
  "process_image w a img_path st =
     (case imread w img_path of
        None \<Rightarrow> Inr (st\<lparr>stdout := stdout st @ [SkipUnreadable img_path]\<rparr>)
      | Some img_rgb \<Rightarrow>
          (case get_image_embedding w img_rgb of
             Inl e \<Rightarrow> Inl e
           | Inr npy \<Rightarrow>
               (let out_file = out a @ ''/'' @ path_stem img_path @ ''.npy''
                in (case np_save w out_file of
                      Some e \<Rightarrow> Inl e
                    | None \<Rightarrow>
                        (let st1 = st\<lparr>files := (files st)(out_file \<mapsto> Npy npy)\<rparr>;
                             st2 = (case write_metadata w a img_path img_rgb st1 of
                                      Inl e \<Rightarrow>
                                        st1\<lparr>stdout := stdout st1 @
                                               [MetadataFailed (path_name img_path) e]\<rparr>
                                    | Inr st' \<Rightarrow> st')
                         in Inr (st2\<lparr>count := count st2 + 1,
                                     stdout := stdout st2 @
                                       [Ok (path_name img_path) out_file]\<rparr>))))))"

fun embed_images :: "world \<Rightarrow> args \<Rightarrow> string list \<Rightarrow> run_state \<Rightarrow> error + run_state" where
  "embed_images w a [] st = Inr st"
| "embed_images w a (img_path # rest) st =
     (case process_image w a img_path st of
        Inl e \<Rightarrow> Inl e
      | Inr st' \<Rightarrow> embed_images w a rest st')"

text \<open>
  \<^verbatim>\<open>main\<close> on the image paths that \<^verbatim>\<open>iter_images\<close> yields, with the output
  directory in place.
\<close>

definition generate_main :: "world \<Rightarrow> args \<Rightarrow> string list \<Rightarrow> error + run_state" where
  "generate_main w a image_paths =
     (case load_sam w (model_type a) (checkpoint a) of
        Inl e \<Rightarrow> Inl e
      | Inr u \<Rightarrow>
          (case embed_images w a image_paths \<lparr>files = Map.empty, count = 0, stdout = []\<rparr> of
             Inl e \<Rightarrow> Inl e
           | Inr st \<Rightarrow> Inr (st\<lparr>stdout := stdout st @ [Done (count st) (out a)]\<rparr>)))"

section \<open>Auxiliary definitions for the proofs\<close>

text \<open>
  A world in which everything works except that no image can be read, one in which
  the model package can be imported neither directly nor from a clone, and one in which
  an image is encoded and saved but its bytes cannot be read again for the sidecar.
\<close>

definition working_world :: world where
  "working_world =
     \<lparr>import_sam = None,
      clone_and_import = None,
      build_predictor = (\<lambda>m c. None),
      imread = (\<lambda>p. Some \<lparr>rows = 2, cols = 3, pixels = replicate 18 0\<rparr>),
      get_image_embedding =
        (\<lambda>i. Inr \<lparr>shape = [1, 256, 64, 64], dtype = Float32,
                  data = replicate (1 * 256 * 64 * 64) 0\<rparr>),
      np_save = (\<lambda>p. None),
      read_bytes = (\<lambda>p. Inr [137, 80, 78, 71]),
      sha256_hex = (\<lambda>b. ''0f''),
      write_json = (\<lambda>p. None)\<rparr>"

definition unreadable_world :: world where
  "unreadable_world = working_world\<lparr>imread := (\<lambda>p. None)\<rparr>"

definition no_package_world :: world where
  "no_package_world =
     working_world\<lparr>import_sam := Some ImportError, clone_and_import := Some OSError\<rparr>"

definition no_sidecar_world :: world where
  "no_sidecar_world = working_world\<lparr>read_bytes := (\<lambda>p. Inl OSError)\<rparr>"

text \<open>Two more worlds: the encoder raises, and the embedding file cannot be saved.\<close>

definition encoder_fails_world :: world where
  "encoder_fails_world =
     working_world\<lparr>get_image_embedding := (\<lambda>i. Inl (RuntimeError ''out of memory''))\<rparr>"

definition disk_full_world :: world where
  "disk_full_world = working_world\<lparr>np_save := (\<lambda>p. Some OSError)\<rparr>"

text \<open>
  An image is encodable when it can be read, encoded and its embedding file saved;
  nothing is asked of the sidecar. \<open>has_npy st q\<close>: an embedding file is at path \<open>q\<close>.
\<close>

definition encodable :: "world \<Rightarrow> args \<Rightarrow> string \<Rightarrow> bool" where
  "encodable w a p =
     (case imread w p of
        None \<Rightarrow> False
      | Some img \<Rightarrow>
          (case get_image_embedding w img of
             Inl e \<Rightarrow> False
           | Inr npy \<Rightarrow> np_save w (out a @ ''/'' @ path_stem p @ ''.npy'') = None))"

definition has_npy :: "run_state \<Rightarrow> string \<Rightarrow> bool" where
  "has_npy st q = (case files st q of Some (Npy n) \<Rightarrow> True | _ \<Rightarrow> False)"

definition vit_b_args :: args where
  "vit_b_args = \<lparr>checkpoint = ''models/sam_vit_b.pth'', model_type = ''vit_b'', out = ''emb''\<rparr>"


text \<open>
  The rows the loop writes, in closed form (used in the proofs only), and the integers
  that \<^verbatim>\<open>float\<close> converts without OverflowError.
\<close>

definition row_of :: "logit \<Rightarrow> click \<Rightarrow> logit list" where
  "row_of s c = (case c of (x, y, lbl) \<Rightarrow> [store_f32 (float_mul x s), store_f32 (float_mul y s)])"

definition label_of :: "click \<Rightarrow> logit" where
  "label_of c = (case c of (x, y, lbl) \<Rightarrow> store_f32 (to_f64 (rat_of_int lbl)))"

definition float_range :: "int \<Rightarrow> bool" where
  "float_range n = (case int_to_float n of Inl e \<Rightarrow> False | Inr f \<Rightarrow> True)"

text \<open>A mask of the native size: 256 rows of 256 pixels.\<close>

definition is_256 :: "'a list list \<Rightarrow> bool" where
  "is_256 m = (length m = 256 \<and> list_all (\<lambda>row. length row = 256) m)"

text \<open>
  The round trip of the specification's resampling property: the native mask resampled
  to \<open>(w, h)\<close>, and the result resampled to 256 by 256.
\<close>

definition resample_back :: "u8 list list \<Rightarrow> int \<Rightarrow> int \<Rightarrow> error + u8 list list" where
  "resample_back native w h =
     (case resize_nearest native w h of
        Inl e \<Rightarrow> Inl e
      | Inr full \<Rightarrow> resize_nearest full 256 256)"

text \<open>
  A session whose graph lists a quality score first and the tensor named
  \<^verbatim>\<open>masks\<close> second.
\<close>

definition score_first_session :: "(unit, logit list list list list) session" where
  "score_first_session =
     \<lparr>output_names = [''iou_predictions'', ''masks''],
      run_graph = (\<lambda>feeds. Inr [[[[[Finite (9 / 10)]]]], [[[[Finite 3]]]]])\<rparr>"

text \<open>A disk with one array file of shape \<open>[1, 128, 64, 64]\<close> in 64-bit floats.\<close>

definition small_emb_disk :: "string \<rightharpoonup> disk_file" where
  "small_emb_disk =
     [''emb.npy'' \<mapsto>
        NpyFile \<lparr>shape = [1, 128, 64, 64], dtype = Float64,
                 data = replicate (1 * 128 * 64 * 64) 0\<rparr>]"

text \<open>A native mask with a single foreground pixel, in the top left corner.\<close>

definition corner_mask :: "u8 list list" where
  "corner_mask = (replicate 256 (replicate 256 0))[0 := (replicate 256 0)[0 := 255]]"

section \<open>Facts about rounding\<close>

declare pow2_nat.simps [simp del]

lemma pow2_nat_power: "pow2_nat n = 2 ^ n"
proof (induction n rule: pow2_nat.induct)
  case (1 n)
  show ?case
  proof (cases "n = 0")
    case True
    then show ?thesis by (simp add: pow2_nat.simps)
  next
    case False
    show ?thesis
    proof (cases "even n")
      case True
      then obtain k where k: "n = 2 * k" by (auto elim: evenE)
      have "pow2_nat n = pow2_nat (n div 2) * pow2_nat (n div 2)"
        using False True by (subst pow2_nat.simps) (simp add: Let_def)
      also have "\<dots> = 2 ^ k * 2 ^ k" using "1.IH"(1) [OF False True] k by simp
      also have "\<dots> = 2 ^ n" by (simp add: k power_add [symmetric] mult_2)
      finally show ?thesis .
    next
      case odd: False
      have "pow2_nat n = 2 * pow2_nat (n - 1)"
        using False odd by (subst pow2_nat.simps) simp
      also have "\<dots> = 2 * 2 ^ (n - 1)" using "1.IH"(2) [OF False odd] by simp
      also have "\<dots> = 2 ^ n" using False by (cases n) simp_all
      finally show ?thesis .
    qed
  qed
qed

lemma pow2_powi: "pow2 e = 2 powi e"
  by (simp add: pow2_def pow2_nat_power power_int_def field_simps)

lemma pow2_pos: "0 < pow2 e"
  by (simp add: pow2_powi)

lemma pow2_mono: "a \<le> b \<Longrightarrow> pow2 a \<le> pow2 b"
  by (simp add: pow2_powi power_int_increasing)

lemma pow2_diff: "pow2 (a - b) = pow2 a / pow2 b"
  by (simp add: pow2_powi power_int_diff)

lemma pow2_int: "pow2 (int n) = 2 ^ n"
  by (simp add: pow2_def pow2_nat_power)

lemma ilog2_lower: "0 < q \<Longrightarrow> pow2 (ilog2 q) \<le> q"
proof -
  assume q: "0 < q"
  obtain a b where ab: "quotient_of q = (a, b)" by (cases "quotient_of q") auto
  have b: "0 < b" using quotient_of_denom_pos [OF ab] .
  have qab: "q = rat_of_int a / rat_of_int b" using quotient_of_div [OF ab] .
  have a: "0 < a" using q b qab by (simp add: zero_less_divide_iff)
  let ?d = "bitlen a - bitlen b"
  show ?thesis
  proof (cases "pow2 ?d \<le> q")
    case True
    then show ?thesis by (simp add: ilog2_def ab Let_def)
  next
    case False
    have la: "1 \<le> bitlen a" using a bitlen_eq_zero_iff [of a] bitlen_nonneg [of a] by linarith
    have "2 ^ nat (bitlen a - 1) \<le> a" using bitlen_bounds [OF a] by simp
    then have "rat_of_int (2 ^ nat (bitlen a - 1)) \<le> rat_of_int a" by (simp only: of_int_le_iff)
    then have A: "pow2 (bitlen a - 1) \<le> rat_of_int a" using la by (simp add: pow2_def pow2_nat_power)
    have "b < 2 ^ nat (bitlen b)" using bitlen_bounds [OF b] by simp
    then have "rat_of_int b < rat_of_int (2 ^ nat (bitlen b))" by (simp only: of_int_less_iff)
    then have B: "rat_of_int b \<le> pow2 (bitlen b)" using bitlen_nonneg [of b] by (simp add: pow2_def pow2_nat_power)
    have "pow2 (?d - 1) = pow2 (bitlen a - 1) / pow2 (bitlen b)"
      using pow2_diff [of "bitlen a - 1" "bitlen b"] by (simp add: algebra_simps)
    also have "\<dots> \<le> rat_of_int a / rat_of_int b"
      using A B b pow2_pos [of "bitlen a - 1"] by (intro frac_le) simp_all
    finally have "pow2 (?d - 1) \<le> q" by (simp add: qab)
    then show ?thesis using False by (simp add: ilog2_def ab Let_def)
  qed
qed

lemma round_half_even_pos: "1 \<le> r \<Longrightarrow> 1 \<le> round_half_even r"
proof -
  assume "1 \<le> r"
  then have "1 \<le> \<lfloor>r\<rfloor>" by (simp add: le_floor_iff)
  then show ?thesis by (auto simp: round_half_even_def Let_def)
qed

lemma round_half_even_neg: "round_half_even (- r) = - round_half_even r"
proof (cases "r \<in> \<int>")
  case True
  then obtain z where "r = of_int z" by (auto elim: Ints_cases)
  then show ?thesis by (simp add: round_half_even_def Let_def)
next
  case False
  then have ne: "r \<noteq> rat_of_int \<lfloor>r\<rfloor>" by (metis Ints_of_int)
  then have f: "\<lfloor>- r\<rfloor> = - \<lfloor>r\<rfloor> - 1" by (simp add: floor_minus ceiling_altdef)
  have d: "r - of_int \<lfloor>r\<rfloor> \<noteq> 0" using ne by simp
  have "0 \<le> r - of_int \<lfloor>r\<rfloor>" "r - of_int \<lfloor>r\<rfloor> < 1" by linarith+
  then show ?thesis using d
    by (auto simp: round_half_even_def Let_def f)
qed

lemma round_to_ge1:
  assumes "1 \<le> q" "emin \<le> 0" "0 < p"
  shows "0 < round_to p emin q"
proof -
  let ?u = "max (ilog2 q - int p + 1) emin"
  have q0: "0 < q" using assms by simp
  then have aq: "\<bar>q\<bar> = q" by simp
  have "pow2 (ilog2 q - int p + 1) \<le> pow2 (ilog2 q)" using assms by (intro pow2_mono) simp
  also have "\<dots> \<le> q" by (rule ilog2_lower [OF q0])
  finally have 1: "pow2 (ilog2 q - int p + 1) \<le> q" .
  have "pow2 emin \<le> pow2 0" using assms by (intro pow2_mono) simp
  then have 2: "pow2 emin \<le> q" using assms by (simp add: pow2_def pow2_nat_power)
  have "pow2 ?u \<le> q" using 1 2 by (simp add: max_def)
  then have "1 \<le> q / pow2 ?u" using pow2_pos [of ?u] by (simp only: pos_le_divide_eq mult_1)
  then have "1 \<le> round_half_even (q / pow2 ?u)" by (rule round_half_even_pos)
  then have "0 < rat_of_int (round_half_even (q / pow2 ?u)) * pow2 ?u"
    using pow2_pos [of ?u] by (intro mult_pos_pos) simp_all
  then show ?thesis using q0 by (simp add: round_to_def Let_def aq)
qed

lemma round_to_neg: "round_to p emin (- q) = - round_to p emin q"
  by (simp add: round_to_def Let_def round_half_even_neg)

lemma to_f64_int_nonzero: "n \<noteq> 0 \<Longrightarrow> to_f64 (rat_of_int n) \<noteq> Finite 0"
proof -
  assume n: "n \<noteq> 0"
  have pos: "0 < round_to 53 (- 1074) (rat_of_int \<bar>n\<bar>)"
    using n by (intro round_to_ge1) simp_all
  have "round_to 53 (- 1074) (rat_of_int n) \<noteq> 0"
  proof (cases "0 < n")
    case True
    then show ?thesis using pos by simp
  next
    case False
    then have "rat_of_int n = - rat_of_int \<bar>n\<bar>" by simp
    then show ?thesis using pos round_to_neg [of 53 "- 1074" "rat_of_int \<bar>n\<bar>"] by simp
  qed
  then show ?thesis
    by (auto simp: to_f64_def to_float_def Let_def)
qed

section \<open>Facts about the prompt tensors\<close>

lemma float_range_Inr: "float_range n \<Longrightarrow> int_to_float n = Inr (to_f64 (rat_of_int n))"
  by (auto simp: float_range_def int_to_float_def split: logit.splits sum.splits)


lemma set2_at_end:
  "length pre = i \<Longrightarrow> set2 [pre @ z # rest] 0 i v = [pre @ v # rest]"
  by (auto simp: set2_def)

lemma set3_at_end:
  "length pre = i \<Longrightarrow> set3 [pre @ z # rest] 0 i k v = [pre @ z[k := v] # rest]"
  by (auto simp: set3_def set2_def)

lemma fill_points_closed:
  "\<forall>c \<in> set clicks. float_range (snd (snd c)) \<Longrightarrow> length pre = i \<Longrightarrow> length prel = i \<Longrightarrow>
   fill_points s i clicks
     ([pre @ replicate (length clicks + k) [Finite 0, Finite 0]],
      [prel @ replicate (length clicks + k) (Finite 0)])
   = Inr ([pre @ map (row_of s) clicks @ replicate k [Finite 0, Finite 0]],
          [prel @ map label_of clicks @ replicate k (Finite 0)])"
proof (induction clicks arbitrary: pre prel i)
  case Nil
  then show ?case by simp
next
  case (Cons c clicks)
  obtain x y lbl where c: "c = (x, y, lbl)" by (cases c) auto
  have r: "int_to_float lbl = Inr (to_f64 (rat_of_int lbl))"
    using Cons.prems(1) by (simp add: c float_range_Inr)
  have rest: "\<forall>c \<in> set clicks. float_range (snd (snd c))" using Cons.prems(1) by simp
  have l1: "length (pre @ [row_of s c]) = Suc i"
    and l2: "length (prel @ [label_of c]) = Suc i"
    using Cons.prems by simp_all
  show ?case
    using Cons.IH [OF rest l1 l2] Cons.prems(2,3)
    by (simp add: c r set3_at_end set2_at_end row_of_def label_of_def Let_def)
qed

lemma to_f32_minus_one: "to_f32 (- 1) = Finite (- 1)"
  by code_simp

lemma point_tensors_closed:
  "sam_scale w h = Inr s \<Longrightarrow> default_clicks clicks w h = Inr cs \<Longrightarrow>
   \<forall>c \<in> set cs. float_range (snd (snd c)) \<Longrightarrow>
   point_tensors clicks w h =
     Inr ([map (row_of s) cs @ [[Finite 0, Finite 0]]], [map label_of cs @ [Finite (- 1)]])"
  using fill_points_closed [of cs "[]" 0 "[]" s 1]
    set2_at_end [of "map label_of cs" "length cs" "Finite 0" "[]" "Finite (- 1)"]
  by (simp add: point_tensors_def Let_def to_f32_minus_one)

lemma sam_scale_in_range:
  "float_range (max w h) \<Longrightarrow> max w h \<noteq> 0 \<Longrightarrow>
   sam_scale w h = Inr (to_f64 (1024 / round_to 53 (- 1074) (rat_of_int (max w h))))"
proof -
  assume r: "float_range (max w h)" and nz: "max w h \<noteq> 0"
  have i: "int_to_float (max w h) = Inr (to_f64 (rat_of_int (max w h)))"
    by (rule float_range_Inr [OF r])
  then obtain v where v: "to_f64 (rat_of_int (max w h)) = Finite v"
    by (auto simp: int_to_float_def split: logit.splits)
  then have v': "v = round_to 53 (- 1074) (rat_of_int (max w h))"
    by (auto simp: to_f64_def to_float_def Let_def split: if_splits)
  have "v \<noteq> 0" using to_f64_int_nonzero [OF nz] v by simp
  then show ?thesis by (simp add: sam_scale_def i v v')
qed

lemma int_to_float_zero: "int_to_float 0 = Inr (Finite 0)"
  by code_simp

lemma sam_scale_zero: "max w h = 0 \<Longrightarrow> sam_scale w h = Inl ZeroDivisionError"
  by (simp add: sam_scale_def int_to_float_zero)




lemma default_clicks_supplied: "clicks \<noteq> [] \<Longrightarrow> default_clicks clicks w h = Inr clicks"
  by (simp add: default_clicks_def)



text \<open>
  On the command line's strings: once the clicks have been parsed the arrays are those of
  the parsed clicks.
\<close>

lemma prompt_tensors_parsed:
  "parse_clicks float_of int_of click_args = Inr clicks \<Longrightarrow>
   prompt_tensors float_of int_of click_args w h = point_tensors clicks w h"
  by (simp add: prompt_tensors_def point_tensors_def split: sum.splits)

text \<open>
  \<^verbatim>\<open>parse_click\<close> hands on whatever integer \<^verbatim>\<open>int\<close> reads after the first
  colon: the label is not compared with anything.
\<close>

lemma parse_click_any_label:
  "CHR '':'' \<in> set s \<Longrightarrow> split_first CHR '':'' s = (xy, lbl) \<Longrightarrow> int_of lbl = Some l \<Longrightarrow>
   split_all CHR '','' xy = [xs, ys] \<Longrightarrow> float_of xs = Some x \<Longrightarrow> float_of ys = Some y \<Longrightarrow>
   parse_click float_of int_of s = Inr (x, y, l)"
  by (simp add: parse_click_def)

lemma parse_click_default_label:
  "CHR '':'' \<notin> set s \<Longrightarrow> split_all CHR '','' s = [xs, ys] \<Longrightarrow>
   float_of xs = Some x \<Longrightarrow> float_of ys = Some y \<Longrightarrow>
   parse_click float_of int_of s = Inr (x, y, 1)"
  by (simp add: parse_click_def)













text \<open>
  C4, as the specification has it, asks for a ValidationError on a width or height that
  is zero or negative and on a label outside \<open>{-1, 0, 1}\<close>. The script checks neither:
  with width 0 and the label 7 it builds the arrays, and so it does with two negative
  dimensions.
\<close>

theorem no_validation_counterexample:
  "point_tensors [(Finite 15, Finite 30, 7)] 0 480 =
     Inr ([[[Finite 32, Finite 64], [Finite 0, Finite 0]]], [[Finite 7, Finite (- 1)]]) \<and>
   point_tensors [(Finite 1, Finite 1, 7)] (- 4) (- 2) =
     Inr ([[[Finite (- 512), Finite (- 512)], [Finite 0, Finite 0]]], [[Finite 7, Finite (- 1)]])"
  by code_simp

text \<open>
  C4, amended. There is no validation. On supplied prompts whose labels are within the
  float range and dimensions whose larger is within the float range, the script fails
  when the larger of width and height is 0, with ZeroDivisionError, and otherwise builds
  the arrays, whatever the sign of the dimensions and whatever the labels, each label
  being stored as its float32 value.
\<close>

theorem no_validation:
  "clicks \<noteq> [] \<Longrightarrow> float_range (max w h) \<Longrightarrow>
   \<forall>c \<in> set clicks. float_range (snd (snd c)) \<Longrightarrow>
   (max w h = 0 \<longrightarrow> point_tensors clicks w h = Inl ZeroDivisionError) \<and>
   (max w h \<noteq> 0 \<longrightarrow>
      (\<exists>pc pl. point_tensors clicks w h = Inr (pc, pl) \<and>
         (\<forall>i < length clicks.
            pl ! 0 ! i = store_f32 (to_f64 (rat_of_int (snd (snd (clicks ! i))))))))"
proof (intro conjI impI)
  assume "max w h = 0"
  then show "point_tensors clicks w h = Inl ZeroDivisionError"
    by (simp add: point_tensors_def sam_scale_zero)
next
  assume ne: "clicks \<noteq> []" and r: "float_range (max w h)"
    and fr: "\<forall>c \<in> set clicks. float_range (snd (snd c))" and nz: "max w h \<noteq> 0"
  let ?s = "to_f64 (1024 / round_to 53 (- 1074) (rat_of_int (max w h)))"
  have pt: "point_tensors clicks w h =
      Inr ([map (row_of ?s) clicks @ [[Finite 0, Finite 0]]], [map label_of clicks @ [Finite (- 1)]])"
    by (rule point_tensors_closed [OF sam_scale_in_range [OF r nz] default_clicks_supplied [OF ne] fr])
  have "\<forall>i < length clicks.
      [map label_of clicks @ [Finite (- 1)]] ! 0 ! i
        = store_f32 (to_f64 (rat_of_int (snd (snd (clicks ! i)))))"
    by (simp add: nth_append label_of_def split: prod.splits)
  with pt show "\<exists>pc pl. point_tensors clicks w h = Inr (pc, pl) \<and>
         (\<forall>i < length clicks.
            pl ! 0 ! i = store_f32 (to_f64 (rat_of_int (snd (snd (clicks ! i))))))"
    by blast
qed


theorem no_validation_witness:
  "[(Finite 1, Finite 1, 7)] \<noteq> ([] :: click list) \<and> float_range (max (- 4) (- 2)) \<and>
   float_range 7 \<and> max (- 4 :: int) (- 2) \<noteq> 0 \<and>
   (\<exists>pc pl. point_tensors [(Finite 1, Finite 1, 7)] (- 4) (- 2) = Inr (pc, pl) \<and>
      pl ! 0 ! 0 = Finite 7) \<and>
   float_range (max 0 0) \<and>
   point_tensors [(Finite 1, Finite 1, 7)] 0 0 = Inl ZeroDivisionError"
proof -
  let ?cs = "[(Finite 1, Finite 1, 7 :: int)]"
  have ne: "?cs \<noteq> []" by simp
  have r: "float_range (max (- 4) (- 2))" by code_simp
  have r0: "float_range (max 0 0)" by code_simp
  have f7: "float_range 7" by code_simp
  have s7: "store_f32 (to_f64 (rat_of_int 7)) = Finite 7" by code_simp
  have fr: "\<forall>c \<in> set ?cs. float_range (snd (snd c))" using f7 by simp
  have nz: "max (- 4 :: int) (- 2) \<noteq> 0" by simp
  from no_validation [OF ne r fr] nz
  obtain pc pl where p: "point_tensors ?cs (- 4) (- 2) = Inr (pc, pl)"
    and l: "\<forall>i < length ?cs. pl ! 0 ! i = store_f32 (to_f64 (rat_of_int (snd (snd (?cs ! i)))))"
    by blast
  from l s7 have "pl ! 0 ! 0 = Finite 7" by simp
  moreover have "point_tensors ?cs 0 0 = Inl ZeroDivisionError"
    using no_validation [OF ne r0 fr] by simp
  ultimately show ?thesis using p ne r r0 f7 nz by blast
qed

section \<open>Facts about nearest-neighbour resampling\<close>

lemma nearest_index_less:
  "0 < n_out \<Longrightarrow> i < n_out \<Longrightarrow> 0 < n_in \<Longrightarrow> nearest_index n_in n_out i < n_in"
proof -
  assume a: "0 < n_out" "i < n_out" "0 < n_in"
  have "2 * i + 1 < 2 * n_out" using a by simp
  then have "(2 * i + 1) * n_in < (2 * n_out) * n_in"
    using a by (intro mult_strict_right_mono) simp_all
  then have "(2 * i + 1) * n_in < n_in * (2 * n_out)"
    by (simp only: mult.commute)
  then show ?thesis
    unfolding nearest_index_def by (rule less_mult_imp_div_less)
qed

lemma nearest_index_roundtrip:
  assumes n: "0 < n" and nm: "n \<le> m" and x: "x < n"
  shows "nearest_index n m (nearest_index m n x) = x"
proof -
  define X where "X = ((2 * x + 1) * m) div (2 * n)"
  have lo: "(2 * n) * X \<le> (2 * x + 1) * m"
    unfolding X_def by simp
  have hi: "(2 * x + 1) * m < 2 * n + (2 * n) * X"
    unfolding X_def using n by (intro dividend_less_times_div) simp
  have m: "0 < m" using n nm by simp
  have g1: "(2 * m) * x \<le> (2 * X + 1) * n"
  proof -
    have "2 * (m * x) + m < n + n + 2 * (n * X)" using hi by (simp add: algebra_simps)
    then have "2 * (m * x) < n + 2 * (n * X)" using nm by linarith
    then show ?thesis by (simp add: algebra_simps)
  qed
  have g2: "(2 * X + 1) * n < (2 * m) * Suc x"
  proof (cases "n = m")
    case True
    have "X = x" unfolding X_def True using m
      by (intro div_nat_eqI) (simp_all add: algebra_simps)
    then show ?thesis using True m by (simp add: algebra_simps)
  next
    case False
    then have "n < m" using nm by simp
    moreover have "2 * (n * X) \<le> 2 * (m * x) + m" using lo by (simp add: algebra_simps)
    ultimately have "2 * (n * X) + n < 2 * (m * x) + 2 * m" by linarith
    then show ?thesis by (simp add: algebra_simps)
  qed
  have "((2 * X + 1) * n) div (2 * m) = x"
    by (rule div_nat_eqI [OF g1 g2])
  then show ?thesis
    by (simp add: nearest_index_def X_def)
qed

lemma resize_nearest_ok:
  "0 < w \<Longrightarrow> 0 < h \<Longrightarrow>
   resize_nearest img w h =
     Inr (map (\<lambda>Y. map (\<lambda>X. getpixel img
               (nearest_index (case img of [] \<Rightarrow> 0 | r # _ \<Rightarrow> length r) (nat w) X)
               (nearest_index (length img) (nat h) Y)) [0..<nat w]) [0..<nat h])"
  by (simp add: resize_nearest_def Let_def)

lemma resize_nearest_dims:
  "resize_nearest img w h = Inr r \<Longrightarrow>
   0 < w \<and> 0 < h \<and> length r = nat h \<and> list_all (\<lambda>row. length row = nat w) r"
  by (auto simp: resize_nearest_def Let_def list_all_iff split: if_splits)

lemma resize_nearest_nth:
  "resize_nearest img w h = Inr r \<Longrightarrow> Y < nat h \<Longrightarrow> X < nat w \<Longrightarrow>
   r ! Y ! X = getpixel img (nearest_index (case img of [] \<Rightarrow> 0 | r # _ \<Rightarrow> length r) (nat w) X)
                            (nearest_index (length img) (nat h) Y)"
  by (auto simp: resize_nearest_def Let_def split: if_splits)

lemma is_256_xsize: "is_256 m \<Longrightarrow> (case m of [] \<Rightarrow> 0 | r # _ \<Rightarrow> length r) = 256"
  by (cases m) (auto simp: is_256_def)

lemma is_256_getpixel:
  "is_256 m \<Longrightarrow> x < 256 \<Longrightarrow> y < 256 \<Longrightarrow> getpixel m x y = m ! y ! x"
  by (auto simp: is_256_def getpixel_def list_all_length)

lemma is_256_binary_of: "is_256 l \<Longrightarrow> is_256 (binary_of l)"
  by (auto simp: is_256_def binary_of_def list_all_iff)


lemma corner_is_256: "is_256 corner_mask"
  by (simp add: is_256_def corner_mask_def list_all_length nth_list_update)

section \<open>Facts about loading the embedding\<close>

text \<open>
  C5, as the specification has it, asks for a ShapeError when the stored array is not of
  shape \<open>[1, 256, 64, 64]\<close> and for no silent conversion. The script loads an array of
  shape \<open>[1, 128, 64, 64]\<close> in 64-bit floats without an error, and hands it on as a
  float32 array of the same shape.
\<close>

theorem shape_unchecked_counterexample:
  "load_emb (\<lambda>x. x) small_emb_disk ''emb.npy'' =
     Inr \<lparr>shape = [1, 128, 64, 64], dtype = Float32, data = replicate (1 * 128 * 64 * 64) 0\<rparr>"
  by (simp add: load_emb_def np_load_def astype_float32_def small_emb_disk_def)

text \<open>
  C5, amended. Loading succeeds exactly on an array file, whatever its shape and element
  type: the result has the stored shape (it is never reshaped, and never compared with an
  expected shape) and the element type float32, every element converted. Loading fails
  only for a missing file (OSError) or a file that is not an array file (ValueError).
\<close>

theorem load_keeps_shape_converts_dtype:
  "(load_emb round32 fs path = Inr a \<longleftrightarrow>
      (\<exists>b. fs path = Some (NpyFile b) \<and> a = b\<lparr>dtype := Float32, data := map round32 (data b)\<rparr>)) \<and>
   (load_emb round32 fs path = Inr a \<longrightarrow>
      (\<exists>b. fs path = Some (NpyFile b) \<and> shape a = shape b \<and> dtype a = Float32)) \<and>
   (load_emb round32 fs path = Inl e \<longleftrightarrow>
      (fs path = None \<and> e = OSError) \<or> (fs path = Some OtherFile \<and> e = ValueError))"
  by (auto simp: load_emb_def np_load_def astype_float32_def split: option.splits disk_file.splits)

theorem load_keeps_shape_converts_dtype_witness:
  "\<exists>a. load_emb (\<lambda>x. x) small_emb_disk ''emb.npy'' = Inr a \<and>
     shape a = [1, 128, 64, 64] \<and> dtype a = Float32"
proof -
  have "load_emb (\<lambda>x. x) small_emb_disk ''emb.npy'' =
     Inr \<lparr>shape = [1, 128, 64, 64], dtype = Float32, data = replicate (1 * 128 * 64 * 64) 0\<rparr>"
    by (simp add: load_emb_def np_load_def astype_float32_def small_emb_disk_def)
  with load_keeps_shape_converts_dtype [of "\<lambda>x. x" small_emb_disk "''emb.npy''"
      "\<lparr>shape = [1, 128, 64, 64], dtype = Float32, data = replicate (1 * 128 * 64 * 64) 0\<rparr>" OSError]
  show ?thesis by simp
qed

section \<open>Facts about the mask post-processing\<close>

lemma index00_Inr: "index00 masks = Inr m \<Longrightarrow> \<exists>b rest brest. masks = (m # brest) # rest"
  by (auto simp: index00_def split: list.splits)

lemma postprocess_Inr:
  "postprocess masks w h = Inr (native, full) \<longleftrightarrow>
   (\<exists>logits. index00 masks = Inr logits \<and> native = binary_of logits \<and>
      resize_nearest native w h = Inr full)"
  by (auto simp: postprocess_def Let_def split: sum.splits)



text \<open>
  C7. For a positive width and height and a 256 by 256 logit map, the native mask is
  256 by 256, and the full mask is the nearest-neighbour resampling of the native mask
  (each of its pixels is a pixel of the native mask, not a function of the logits
  otherwise), with \<open>h\<close> rows of \<open>w\<close> pixels.
\<close>

theorem full_mask_from_native:
  "0 < w \<Longrightarrow> 0 < h \<Longrightarrow> index00 masks = Inr logits \<Longrightarrow> is_256 logits \<Longrightarrow>
   (\<exists>native full. postprocess masks w h = Inr (native, full) \<and>
      native = binary_of logits \<and> is_256 native \<and>
      resize_nearest native w h = Inr full \<and>
      length full = nat h \<and> list_all (\<lambda>row. length row = nat w) full \<and>
      (\<forall>Y < nat h. \<forall>X < nat w.
         full ! Y ! X = native ! nearest_index 256 (nat h) Y ! nearest_index 256 (nat w) X))"
proof -
  assume w: "0 < w" and h: "0 < h" and l: "index00 masks = Inr logits" and s: "is_256 logits"
  let ?native = "binary_of logits"
  have n256: "is_256 ?native" by (rule is_256_binary_of [OF s])
  obtain full where f: "resize_nearest ?native w h = Inr full"
    using resize_nearest_ok [OF w h] by blast
  have p: "postprocess masks w h = Inr (?native, full)"
    using l f by (simp add: postprocess_Inr)
  have d: "length full = nat h \<and> list_all (\<lambda>row. length row = nat w) full"
    using resize_nearest_dims [OF f] by simp
  have px: "\<forall>Y < nat h. \<forall>X < nat w.
      full ! Y ! X = ?native ! nearest_index 256 (nat h) Y ! nearest_index 256 (nat w) X"
  proof (intro allI impI)
    fix Y X assume Y: "Y < nat h" and X: "X < nat w"
    have yi: "nearest_index 256 (nat h) Y < 256"
      using Y by (intro nearest_index_less) simp_all
    have xi: "nearest_index 256 (nat w) X < 256"
      using X by (intro nearest_index_less) simp_all
    have len: "length ?native = 256" using n256 by (simp add: is_256_def)
    show "full ! Y ! X = ?native ! nearest_index 256 (nat h) Y ! nearest_index 256 (nat w) X"
      using resize_nearest_nth [OF f Y X] is_256_getpixel [OF n256 xi yi]
      by (simp add: is_256_xsize [OF n256] len)
  qed
  show ?thesis using p n256 f d px by blast
qed

theorem full_mask_from_native_witness:
  "(0::int) < 640 \<and> (0::int) < 480 \<and>
   index00 [[replicate 256 (replicate 256 (Finite 1))]] = Inr (replicate 256 (replicate 256 (Finite 1))) \<and>
   is_256 (replicate 256 (replicate 256 (Finite 1))) \<and>
   (\<exists>native full. postprocess [[replicate 256 (replicate 256 (Finite 1))]] 640 480 = Inr (native, full) \<and>
      is_256 native \<and> length full = 480 \<and> list_all (\<lambda>row. length row = 640) full)"
proof -
  have w: "(0::int) < 640" and h: "(0::int) < 480" by simp_all
  have i: "index00 [[replicate 256 (replicate 256 (Finite 1))]] = Inr (replicate 256 (replicate 256 (Finite 1)))"
    by (simp add: index00_def)
  have s: "is_256 (replicate 256 (replicate 256 (Finite 1)))"
    by (simp add: is_256_def list_all_length)
  from full_mask_from_native [OF w h i s]
  obtain native full where
    "postprocess [[replicate 256 (replicate 256 (Finite 1))]] 640 480 = Inr (native, full)"
    "is_256 native" "length full = nat 480" "list_all (\<lambda>row. length row = nat 640) full"
    by blast
  then have "postprocess [[replicate 256 (replicate 256 (Finite 1))]] 640 480 = Inr (native, full) \<and>
      is_256 native \<and> length full = 480 \<and> list_all (\<lambda>row. length row = 640) full"
    by simp
  with w h i s show ?thesis by blast
qed

text \<open>
  C8, amended. When the width and the height are both at least 256, resampling the
  native mask to \<open>(w, h)\<close> and the result to 256 by 256 gives the native mask again.
\<close>

theorem resample_roundtrip:
  "256 \<le> w \<Longrightarrow> 256 \<le> h \<Longrightarrow> is_256 native \<Longrightarrow> resample_back native w h = Inr native"
proof -
  assume w: "256 \<le> w" and h: "256 \<le> h" and s: "is_256 native"
  have w0: "0 < w" and h0: "0 < h" using w h by simp_all
  obtain full where f: "resize_nearest native w h = Inr full"
    using resize_nearest_ok [OF w0 h0] by blast
  have d: "length full = nat h" "list_all (\<lambda>row. length row = nat w) full"
    using resize_nearest_dims [OF f] by simp_all
  have xs: "(case full of [] \<Rightarrow> 0 | r # _ \<Rightarrow> length r) = nat w"
    using d h0 by (cases full) auto
  have len: "length native = 256"
    using s by (simp add: is_256_def)
  have rws: "\<forall>i < 256. length (native ! i) = 256"
    using s by (simp add: is_256_def list_all_length)
  have rs: "resize_nearest full 256 256 =
      Inr (map (\<lambda>Y. map (\<lambda>X. getpixel full (nearest_index (nat w) 256 X)
                                           (nearest_index (nat h) 256 Y)) [0..<256]) [0..<256])"
    using resize_nearest_ok [of 256 256 full] by (simp add: xs d)
  have eq: "map (\<lambda>Y. map (\<lambda>X. getpixel full (nearest_index (nat w) 256 X)
                                           (nearest_index (nat h) 256 Y)) [0..<256]) [0..<256]
      = native"
  proof (rule nth_equalityI)
    show "length (map (\<lambda>Y. map (\<lambda>X. getpixel full (nearest_index (nat w) 256 X)
                                           (nearest_index (nat h) 256 Y)) [0..<256]) [0..<256])
        = length native"
      by (simp add: len)
  next
    fix Y
    assume "Y < length (map (\<lambda>Y. map (\<lambda>X. getpixel full (nearest_index (nat w) 256 X)
                                           (nearest_index (nat h) 256 Y)) [0..<256]) [0..<256])"
    then have Y: "Y < 256" by simp
    have Y': "nearest_index (nat h) 256 Y < nat h"
      using Y h0 by (intro nearest_index_less) simp_all
    have Yr: "nearest_index 256 (nat h) (nearest_index (nat h) 256 Y) = Y"
      using Y h by (intro nearest_index_roundtrip) simp_all
    have "map (\<lambda>X. getpixel full (nearest_index (nat w) 256 X)
                                           (nearest_index (nat h) 256 Y)) [0..<256] = native ! Y"
    proof (rule nth_equalityI)
      show "length (map (\<lambda>X. getpixel full (nearest_index (nat w) 256 X)
                                           (nearest_index (nat h) 256 Y)) [0..<256]) = length (native ! Y)"
        using rws Y by simp
    next
      fix X
      assume "X < length (map (\<lambda>X. getpixel full (nearest_index (nat w) 256 X)
                                           (nearest_index (nat h) 256 Y)) [0..<256])"
      then have X: "X < 256" by simp
      have X': "nearest_index (nat w) 256 X < nat w"
        using X w0 by (intro nearest_index_less) simp_all
      have Xr: "nearest_index 256 (nat w) (nearest_index (nat w) 256 X) = X"
        using X w by (intro nearest_index_roundtrip) simp_all
      have inr: "length (full ! nearest_index (nat h) 256 Y) = nat w"
        using d Y' by (simp add: list_all_length)
      have "getpixel full (nearest_index (nat w) 256 X) (nearest_index (nat h) 256 Y)
          = full ! nearest_index (nat h) 256 Y ! nearest_index (nat w) 256 X"
        using Y' X' d inr by (simp add: getpixel_def)
      also have "\<dots> = getpixel native X Y"
        using resize_nearest_nth [OF f Y' X'] by (simp add: is_256_xsize [OF s] len Xr Yr)
      also have "\<dots> = native ! Y ! X"
        by (rule is_256_getpixel [OF s X Y])
      finally show "map (\<lambda>X. getpixel full (nearest_index (nat w) 256 X)
                                           (nearest_index (nat h) 256 Y)) [0..<256] ! X = native ! Y ! X"
        using X by simp
    qed
    then show "map (\<lambda>Y. map (\<lambda>X. getpixel full (nearest_index (nat w) 256 X)
                                           (nearest_index (nat h) 256 Y)) [0..<256]) [0..<256] ! Y
        = native ! Y"
      using Y by simp
  qed
  show ?thesis
    by (simp add: resample_back_def f rs eq)
qed

theorem resample_roundtrip_witness:
  "(256::int) \<le> 640 \<and> (256::int) \<le> 480 \<and> is_256 corner_mask \<and>
   resample_back corner_mask 640 480 = Inr corner_mask"
proof -
  have w: "(256::int) \<le> 640" and h: "(256::int) \<le> 480" by simp_all
  show ?thesis
    using resample_roundtrip [OF w h corner_is_256] w h corner_is_256 by blast
qed

text \<open>
  C8, as the specification has it, holds for every positive width and height. For a
  128 by 128 image the round trip turns the mask with one foreground pixel in the corner
  into another mask: pixel \<open>(0, 0)\<close> comes back as the native pixel \<open>(1, 1)\<close>.
\<close>

theorem resample_small_counterexample:
  "is_256 corner_mask \<and> resample_back corner_mask 128 128 \<noteq> Inr corner_mask"
proof
  show "is_256 corner_mask" by (rule corner_is_256)
  show "resample_back corner_mask 128 128 \<noteq> Inr corner_mask"
  proof
    assume a: "resample_back corner_mask 128 128 = Inr corner_mask"
    obtain full where f: "resize_nearest corner_mask 128 128 = Inr full"
      using resize_nearest_ok [of 128 128 corner_mask] by simp
    from a f have b: "resize_nearest full 256 256 = Inr corner_mask"
      by (simp add: resample_back_def)
    have d: "length full = 128" "list_all (\<lambda>row. length row = 128) full"
      using resize_nearest_dims [OF f] by simp_all
    have xs: "(case full of [] \<Rightarrow> 0 | r # _ \<Rightarrow> length r) = 128"
      using d by (cases full) auto
    have "corner_mask ! 0 ! 0 = getpixel full (nearest_index 128 256 0) (nearest_index 128 256 0)"
      using resize_nearest_nth [OF b, of 0 0] by (simp add: xs d)
    also have "\<dots> = full ! 0 ! 0"
      using d by (simp add: nearest_index_def getpixel_def list_all_length)
    also have "\<dots> = getpixel corner_mask (nearest_index 256 128 0) (nearest_index 256 128 0)"
      using resize_nearest_nth [OF f, of 0 0] corner_is_256
      by (simp add: is_256_xsize is_256_def)
    also have "\<dots> = corner_mask ! 1 ! 1"
      using is_256_getpixel [OF corner_is_256, of 1 1] by (simp add: nearest_index_def)
    finally show False
      by (simp add: corner_mask_def)
  qed
qed

section \<open>Facts about the decoder call\<close>

text \<open>A graph without outputs has no output of any name.\<close>

lemma sess_run_names_empty:
  "run_graph sess feeds = Inr [] \<Longrightarrow>
   \<exists>msg. sess_run sess (Some [n]) feeds = Inl (EngineError msg)"
  by (simp add: sess_run_def)

text \<open>
  C9, as the specification has it, looks the mask up by name first and falls back to
  position 0. The script does the opposite: on a graph that lists a quality score first
  and the tensor named \<^verbatim>\<open>masks\<close> second, it resolves the quality score, although
  the lookup by name would have found the mask.
\<close>

theorem positional_first_counterexample:
  "decoder_masks score_first_session () = Inr [[[[Finite (9 / 10)]]]] \<and>
   sess_run score_first_session (Some [''masks'']) () = Inr [[[[[Finite 3]]]]] \<and>
   decoder_masks score_first_session () \<noteq> Inr [[[[Finite 3]]]]"
  by (simp add: decoder_masks_def sess_run_def score_first_session_def)

text \<open>
  C9, amended. The script asks for all outputs and resolves the tensor at position 0
  whenever the output list is not empty, so a graph with a single output tensor resolves
  from position 0; the lookup of the name \<^verbatim>\<open>masks\<close> is tried only on an empty
  output list, where it fails with the engine's error; an engine error of the run is
  handed on as it is.
\<close>

theorem first_output_resolved:
  "(decoder_masks sess feeds = Inr t \<longleftrightarrow>
      (\<exists>outs. run_graph sess feeds = Inr outs \<and> outs \<noteq> [] \<and> t = outs ! 0)) \<and>
   (run_graph sess feeds = Inr [t] \<longrightarrow> decoder_masks sess feeds = Inr t) \<and>
   (run_graph sess feeds = Inl e \<longrightarrow> decoder_masks sess feeds = Inl e) \<and>
   (run_graph sess feeds = Inr [] \<longrightarrow>
      (\<exists>msg. decoder_masks sess feeds = Inl (EngineError msg)))"
proof (intro conjI impI)
  show "decoder_masks sess feeds = Inr t \<longleftrightarrow>
      (\<exists>outs. run_graph sess feeds = Inr outs \<and> outs \<noteq> [] \<and> t = outs ! 0)"
  proof (cases "run_graph sess feeds")
    case (Inl e')
    then show ?thesis by (simp add: decoder_masks_def sess_run_def)
  next
    case (Inr outs)
    show ?thesis
    proof (cases "outs = []")
      case True
      with Inr sess_run_names_empty [of sess feeds "''masks''"] show ?thesis
        by (auto simp: decoder_masks_def sess_run_def)
    next
      case False
      then have "1 \<le> length outs" by (cases outs) simp_all
      with Inr False show ?thesis
        by (auto simp: decoder_masks_def sess_run_def)
    qed
  qed
next
  assume "run_graph sess feeds = Inr [t]"
  then show "decoder_masks sess feeds = Inr t"
    by (simp add: decoder_masks_def sess_run_def)
next
  assume "run_graph sess feeds = Inl e"
  then show "decoder_masks sess feeds = Inl e"
    by (simp add: decoder_masks_def sess_run_def)
next
  assume a: "run_graph sess feeds = Inr []"
  from sess_run_names_empty [OF a, of "''masks''"]
  obtain msg where "sess_run sess (Some [''masks'']) feeds = Inl (EngineError msg)" by blast
  with a show "\<exists>msg. decoder_masks sess feeds = Inl (EngineError msg)"
    by (simp add: decoder_masks_def sess_run_def)
qed

theorem first_output_resolved_witness:
  "decoder_masks \<lparr>output_names = [''masks''], run_graph = (\<lambda>f. Inr [[[[[Finite 3]]]]])\<rparr> ()
     = Inr [[[[Finite 3]]]] \<and>
   decoder_masks \<lparr>output_names = [''masks''],
        run_graph = (\<lambda>f. Inl (EngineError ''bad input'') :: error + logit list list list list list)\<rparr> ()
     = Inl (EngineError ''bad input'') \<and>
   (\<exists>msg. decoder_masks \<lparr>output_names = [],
        run_graph = (\<lambda>f. Inr ([] :: logit list list list list list))\<rparr> ()
     = Inl (EngineError msg))"
proof -
  let ?one = "\<lparr>output_names = [''masks''], run_graph = (\<lambda>f::unit. Inr [[[[[Finite 3]]]]])\<rparr>"
  let ?bad = "\<lparr>output_names = [''masks''],
        run_graph = (\<lambda>f::unit. Inl (EngineError ''bad input'') :: error + logit list list list list list)\<rparr>"
  let ?none = "\<lparr>output_names = [],
        run_graph = (\<lambda>f::unit. Inr ([] :: logit list list list list list))\<rparr>"
  have r1: "run_graph ?one () = Inr [[[[[Finite 3]]]]]" by simp
  have r2: "run_graph ?bad () = Inl (EngineError ''bad input'')" by simp
  have r3: "run_graph ?none () = Inr []" by simp
  from first_output_resolved [of ?one "()" "[[[[Finite 3]]]]" ZeroDivisionError] r1
  have a: "decoder_masks ?one () = Inr [[[[Finite 3]]]]" by blast
  from first_output_resolved [of ?bad "()" "[]" "EngineError ''bad input''"] r2
  have b: "decoder_masks ?bad () = Inl (EngineError ''bad input'')" by blast
  from first_output_resolved [of ?none "()" "[]" ZeroDivisionError] r3
  have c: "\<exists>msg. decoder_masks ?none () = Inl (EngineError msg)" by blast
  from a b c show ?thesis by blast
qed

section \<open>Facts about the embedding loop\<close>

lemma npy_json_differ: "o1 @ ''/'' @ s1 @ ''.npy'' \<noteq> o2 @ ''/'' @ s2 @ ''.json''"
proof
  assume "o1 @ ''/'' @ s1 @ ''.npy'' = o2 @ ''/'' @ s2 @ ''.json''"
  then have "last (o1 @ ''/'' @ s1 @ ''.npy'') = last (o2 @ ''/'' @ s2 @ ''.json'')" by simp
  then show False by simp
qed

lemma write_metadata_keeps:
  "write_metadata w a p img st = Inr st' \<Longrightarrow>
   count st' = count st \<and> (has_npy st (o1 @ ''/'' @ s1 @ ''.npy'') \<longrightarrow> has_npy st' (o1 @ ''/'' @ s1 @ ''.npy''))"
  by (auto simp: write_metadata_def Let_def has_npy_def npy_json_differ split: sum.splits option.splits)

lemma process_image_encodable:
  assumes "encodable w a p"
  shows "\<exists>st'. process_image w a p st = Inr st' \<and> count st' = count st + 1 \<and>
      has_npy st' (out a @ ''/'' @ path_stem p @ ''.npy'') \<and>
      (\<forall>o1 s1. has_npy st (o1 @ ''/'' @ s1 @ ''.npy'') \<longrightarrow> has_npy st' (o1 @ ''/'' @ s1 @ ''.npy''))"
proof -
  from assms obtain img npy where i: "imread w p = Some img"
    and g: "get_image_embedding w img = Inr npy"
    and s: "np_save w (out a @ ''/'' @ path_stem p @ ''.npy'') = None"
    by (auto simp: encodable_def split: option.splits sum.splits)
  let ?q = "out a @ ''/'' @ path_stem p @ ''.npy''"
  let ?st1 = "st\<lparr>files := (files st)(?q \<mapsto> Npy npy)\<rparr>"
  have k1: "has_npy ?st1 ?q" by (simp add: has_npy_def)
  have k2: "\<forall>o1 s1. has_npy st (o1 @ ''/'' @ s1 @ ''.npy'') \<longrightarrow> has_npy ?st1 (o1 @ ''/'' @ s1 @ ''.npy'')"
    by (simp add: has_npy_def)
  show ?thesis
  proof (cases "write_metadata w a p img ?st1")
    case (Inl e)
    with i g s k1 k2 show ?thesis
      by (simp add: process_image_def Let_def has_npy_def)
  next
    case (Inr st2)
    have c: "count st2 = count ?st1" using write_metadata_keeps [OF Inr] by simp
    have m1: "has_npy st2 ?q" using write_metadata_keeps [OF Inr, of "out a" "path_stem p"] k1 by simp
    have m2: "\<forall>o1 s1. has_npy st (o1 @ ''/'' @ s1 @ ''.npy'') \<longrightarrow> has_npy st2 (o1 @ ''/'' @ s1 @ ''.npy'')"
      using write_metadata_keeps [OF Inr] k2 by blast
    from i g s Inr c m1 m2 show ?thesis
      by (simp add: process_image_def Let_def has_npy_def)
  qed
qed

lemma embed_images_all_counted:
  "\<forall>p \<in> set ps. encodable w a p \<Longrightarrow>
   \<exists>st'. embed_images w a ps st = Inr st' \<and> count st' = count st + length ps \<and>
     (\<forall>p \<in> set ps. has_npy st' (out a @ ''/'' @ path_stem p @ ''.npy'')) \<and>
     (\<forall>o1 s1. has_npy st (o1 @ ''/'' @ s1 @ ''.npy'') \<longrightarrow> has_npy st' (o1 @ ''/'' @ s1 @ ''.npy''))"
proof (induction ps arbitrary: st)
  case Nil
  then show ?case by simp
next
  case (Cons p ps)
  from Cons.prems have e: "encodable w a p" and rest: "\<forall>p \<in> set ps. encodable w a p" by simp_all
  from process_image_encodable [OF e, of st]
  obtain st1 where p1: "process_image w a p st = Inr st1" and c1: "count st1 = count st + 1"
    and n1: "has_npy st1 (out a @ ''/'' @ path_stem p @ ''.npy'')"
    and k1: "\<forall>o1 s1. has_npy st (o1 @ ''/'' @ s1 @ ''.npy'') \<longrightarrow> has_npy st1 (o1 @ ''/'' @ s1 @ ''.npy'')"
    by blast
  from Cons.IH [OF rest, of st1]
  obtain st' where r: "embed_images w a ps st1 = Inr st'" and c: "count st' = count st1 + length ps"
    and n: "\<forall>p \<in> set ps. has_npy st' (out a @ ''/'' @ path_stem p @ ''.npy'')"
    and k: "\<forall>o1 s1. has_npy st1 (o1 @ ''/'' @ s1 @ ''.npy'') \<longrightarrow> has_npy st' (o1 @ ''/'' @ s1 @ ''.npy'')"
    by blast
  have "embed_images w a (p # ps) st = Inr st'" using p1 r by simp
  moreover have "count st' = count st + length (p # ps)" using c c1 by simp
  moreover have "\<forall>q \<in> set (p # ps). has_npy st' (out a @ ''/'' @ path_stem q @ ''.npy'')"
    using n n1 k by auto
  moreover have "\<forall>o1 s1. has_npy st (o1 @ ''/'' @ s1 @ ''.npy'') \<longrightarrow> has_npy st' (o1 @ ''/'' @ s1 @ ''.npy'')"
    using k k1 by blast
  ultimately show ?case by blast
qed

text \<open>
  C10, amended. When the embedding file of an image has been written and the sidecar
  cannot be, the image is processed all the same: the embedding file is in place, the
  image is counted, a warning is printed and the loop goes on; over a whole run, every
  image that can be read, encoded and saved is counted and has its embedding file at the
  end, whatever happens to the sidecars. An unreadable image is a warning too: it is
  skipped, not counted, and the loop goes on. An error of the encoder or of saving the
  embedding file ends the run with that error. A failed import of the model package whose
  second attempt fails as well ends the run with SystemExit in place of the error.
\<close>

theorem sidecar_failure_is_soft:
  "(imread w p = Some img \<and> get_image_embedding w img = Inr npy \<and>
    np_save w (out a @ ''/'' @ path_stem p @ ''.npy'') = None \<and>
    write_metadata w a p img
      (st\<lparr>files := (files st)(out a @ ''/'' @ path_stem p @ ''.npy'' \<mapsto> Npy npy)\<rparr>) = Inl e
    \<longrightarrow>
      (\<exists>st'. process_image w a p st = Inr st' \<and>
         files st' (out a @ ''/'' @ path_stem p @ ''.npy'') = Some (Npy npy) \<and>
         count st' = count st + 1 \<and>
         MetadataFailed (path_name p) e \<in> set (stdout st') \<and>
         embed_images w a (p # ps) st = embed_images w a ps st')) \<and>
   ((\<forall>q \<in> set qs. encodable w a q) \<longrightarrow>
      (\<exists>st'. embed_images w a qs st = Inr st' \<and>
         count st' = count st + length qs \<and>
         (\<forall>q \<in> set qs. has_npy st' (out a @ ''/'' @ path_stem q @ ''.npy'')))) \<and>
   (imread w p = None \<longrightarrow>
      process_image w a p st = Inr (st\<lparr>stdout := stdout st @ [SkipUnreadable p]\<rparr>) \<and>
      embed_images w a (p # ps) st =
        embed_images w a ps (st\<lparr>stdout := stdout st @ [SkipUnreadable p]\<rparr>)) \<and>
   (imread w p = Some img \<and> get_image_embedding w img = Inl e \<longrightarrow>
      process_image w a p st = Inl e \<and> embed_images w a (p # ps) st = Inl e) \<and>
   (imread w p = Some img \<and> get_image_embedding w img = Inr npy \<and>
    np_save w (out a @ ''/'' @ path_stem p @ ''.npy'') = Some e \<longrightarrow>
      process_image w a p st = Inl e \<and> embed_images w a (p # ps) st = Inl e) \<and>
   (import_sam w = Some e1 \<and> clone_and_import w = Some e2 \<longrightarrow>
      load_sam w m c = Inl (SystemExit ''Failed to import segment_anything''))"
proof (intro conjI impI)
  assume "\<forall>q \<in> set qs. encodable w a q"
  from embed_images_all_counted [OF this, of st]
  show "\<exists>st'. embed_images w a qs st = Inr st' \<and>
         count st' = count st + length qs \<and>
         (\<forall>q \<in> set qs. has_npy st' (out a @ ''/'' @ path_stem q @ ''.npy''))"
    by blast
qed (simp_all add: process_image_def load_sam_def Let_def)

theorem sidecar_failure_is_soft_witness:
  "encodable no_sidecar_world vit_b_args ''imgs/cat.png'' \<and>
   write_metadata no_sidecar_world vit_b_args ''imgs/cat.png''
     \<lparr>rows = 2, cols = 3, pixels = replicate 18 0\<rparr>
     \<lparr>files = [''emb/cat.npy'' \<mapsto> Npy \<lparr>shape = [1, 256, 64, 64], dtype = Float32,
                  data = replicate (1 * 256 * 64 * 64) 0\<rparr>], count = 0, stdout = []\<rparr>
     = Inl OSError \<and>
   (\<exists>st'. embed_images no_sidecar_world vit_b_args [''imgs/cat.png'']
             \<lparr>files = Map.empty, count = 0, stdout = []\<rparr> = Inr st' \<and>
      count st' = 1 \<and> has_npy st' ''emb/cat.npy'') \<and>
   (\<exists>st'. process_image no_sidecar_world vit_b_args ''imgs/cat.png''
             \<lparr>files = Map.empty, count = 0, stdout = []\<rparr> = Inr st' \<and>
      count st' = 1 \<and> MetadataFailed ''cat.png'' OSError \<in> set (stdout st')) \<and>
   process_image unreadable_world vit_b_args ''imgs/cat.png''
       \<lparr>files = Map.empty, count = 0, stdout = []\<rparr>
     = Inr \<lparr>files = Map.empty, count = 0, stdout = [SkipUnreadable ''imgs/cat.png'']\<rparr> \<and>
   process_image encoder_fails_world vit_b_args ''imgs/cat.png''
       \<lparr>files = Map.empty, count = 0, stdout = []\<rparr>
     = Inl (RuntimeError ''out of memory'') \<and>
   process_image disk_full_world vit_b_args ''imgs/cat.png''
       \<lparr>files = Map.empty, count = 0, stdout = []\<rparr>
     = Inl OSError \<and>
   load_sam no_package_world ''vit_b'' ''models/sam_vit_b.pth''
     = Inl (SystemExit ''Failed to import segment_anything'')"
proof -
  let ?img = "\<lparr>rows = 2, cols = 3, pixels = replicate 18 (0::u8)\<rparr>"
  let ?npy = "\<lparr>shape = [1, 256, 64, 64], dtype = Float32, data = replicate (1 * 256 * 64 * 64) (0::rat)\<rparr>"
  let ?st = "\<lparr>files = Map.empty, count = 0, stdout = []\<rparr>"
  let ?p = "''imgs/cat.png''"
  note inst = sidecar_failure_is_soft [where p = ?p and img = ?img and npy = ?npy
      and a = vit_b_args and st = ?st and ps = "[]" and qs = "[?p]"
      and m = "''vit_b''" and c = "''models/sam_vit_b.pth''"]
  have stem: "path_stem ?p = ''cat''" and name: "path_name ?p = ''cat.png''"
    by (simp_all add: path_stem_def path_name_def Let_def)
  have o: "out vit_b_args = ''emb''" by (simp add: vit_b_args_def)
  have enc: "encodable no_sidecar_world vit_b_args ?p"
    by (simp add: encodable_def no_sidecar_world_def working_world_def)
  have h1: "imread no_sidecar_world ?p = Some ?img"
    and h2: "get_image_embedding no_sidecar_world ?img = Inr ?npy"
    and h3: "np_save no_sidecar_world (out vit_b_args @ ''/'' @ path_stem ?p @ ''.npy'') = None"
    by (simp_all add: no_sidecar_world_def working_world_def)
  have h4: "write_metadata no_sidecar_world vit_b_args ?p ?img
      (?st\<lparr>files := (files ?st)(out vit_b_args @ ''/'' @ path_stem ?p @ ''.npy'' \<mapsto> Npy ?npy)\<rparr>)
      = Inl OSError"
    by (simp add: write_metadata_def no_sidecar_world_def working_world_def)
  have h4': "write_metadata no_sidecar_world vit_b_args ?p ?img
      \<lparr>files = [''emb/cat.npy'' \<mapsto> Npy ?npy], count = 0, stdout = []\<rparr> = Inl OSError"
    using h4 by (simp add: stem o)
  from inst [where w = no_sidecar_world and e = OSError] h1 h2 h3 h4
  obtain s1 where "process_image no_sidecar_world vit_b_args ?p ?st = Inr s1"
    "count s1 = count ?st + 1"
    "MetadataFailed (path_name ?p) OSError \<in> set (stdout s1)"
    by blast
  then have A: "\<exists>st'. process_image no_sidecar_world vit_b_args ?p ?st = Inr st' \<and>
      count st' = 1 \<and> MetadataFailed ''cat.png'' OSError \<in> set (stdout st')"
    by (simp add: name)
  from inst [where w = no_sidecar_world and e = OSError] enc
  obtain s2 where "embed_images no_sidecar_world vit_b_args [?p] ?st = Inr s2"
    "count s2 = count ?st + length [?p]"
    "\<forall>q \<in> set [?p]. has_npy s2 (out vit_b_args @ ''/'' @ path_stem q @ ''.npy'')"
    by auto
  then have A': "\<exists>st'. embed_images no_sidecar_world vit_b_args [?p] ?st = Inr st' \<and>
      count st' = 1 \<and> has_npy st' ''emb/cat.npy''"
    by (simp add: stem o)
  have u: "imread unreadable_world ?p = None"
    by (simp add: unreadable_world_def working_world_def)
  from inst [where w = unreadable_world and e = OSError] u
  have B: "process_image unreadable_world vit_b_args ?p ?st
      = Inr \<lparr>files = Map.empty, count = 0, stdout = [SkipUnreadable ?p]\<rparr>"
    by simp
  have f1: "imread encoder_fails_world ?p = Some ?img"
    and f2: "get_image_embedding encoder_fails_world ?img = Inl (RuntimeError ''out of memory'')"
    by (simp_all add: encoder_fails_world_def working_world_def)
  from inst [where w = encoder_fails_world and e = "RuntimeError ''out of memory''"] f1 f2
  have C: "process_image encoder_fails_world vit_b_args ?p ?st = Inl (RuntimeError ''out of memory'')"
    by blast
  have d1: "imread disk_full_world ?p = Some ?img"
    and d2: "get_image_embedding disk_full_world ?img = Inr ?npy"
    and d3: "np_save disk_full_world (out vit_b_args @ ''/'' @ path_stem ?p @ ''.npy'') = Some OSError"
    by (simp_all add: disk_full_world_def working_world_def)
  from inst [where w = disk_full_world and e = OSError] d1 d2 d3
  have D: "process_image disk_full_world vit_b_args ?p ?st = Inl OSError"
    by blast
  have i1: "import_sam no_package_world = Some ImportError"
    and i2: "clone_and_import no_package_world = Some OSError"
    by (simp_all add: no_package_world_def working_world_def)
  from inst [where w = no_package_world and e = OSError and ?e1.0 = ImportError and ?e2.0 = OSError] i1 i2
  have E: "load_sam no_package_world ''vit_b'' ''models/sam_vit_b.pth''
     = Inl (SystemExit ''Failed to import segment_anything'')"
    by blast
  from enc h4' A' A B C D E show ?thesis by blast
qed

text \<open>
  C10, as the specification has it, makes the sidecar the only place where an error is
  not handed on unchanged. An unreadable image is no error of the run either (the run
  ends normally, having written nothing), and a failed import comes out as SystemExit and
  not as the error that was raised.
\<close>

theorem errors_swallowed_counterexample:
  "generate_main unreadable_world vit_b_args [''imgs/bad.png''] =
     Inr \<lparr>files = Map.empty, count = 0,
          stdout = [SkipUnreadable ''imgs/bad.png'', Done 0 ''emb'']\<rparr> \<and>
   import_sam no_package_world = Some ImportError \<and>
   clone_and_import no_package_world = Some OSError \<and>
   generate_main no_package_world vit_b_args [''imgs/cat.png''] =
     Inl (SystemExit ''Failed to import segment_anything'')"
  by (simp add: generate_main_def load_sam_def process_image_def unreadable_world_def
      no_package_world_def working_world_def vit_b_args_def)

end
